theory Spec2Isabelle
  imports Main "HOL-Library.Word"
begin

section \<open>The managed server and the controller agent of the YTsaurus operator\<close>

text \<open>
  This theory embeds two Go files of the operator: the managed server
  (\<^verbatim>\<open>type server struct\<close>, constructor \<^verbatim>\<open>NewServer\<close>) and the controller agent
  component (\<^verbatim>\<open>pkg/components/controller_agent.go\<close>). Go structs are records, Go
  pointers that may be nil are options, a Go \<^verbatim>\<open>error\<close> result is an \<open>error option\<close>
  (\<open>None\<close> is \<^verbatim>\<open>nil\<close>), a Go panic is the constructor \<open>Panicked\<close> of the result type, and
  methods that mutate their receiver return the new receiver.
\<close>

subsection \<open>Errors, panics and results\<close>

datatype error = Error string

datatype panic = IndexOutOfRange | PanicError error

datatype 'a result = Panicked panic | Returned 'a

subsection \<open>Kubernetes objects\<close>

text \<open>
  Only the fields the two files read or write are kept. Payloads that the code copies
  from the instance spec into the pod template without looking inside are strings here.
\<close>

type_synonym ObjectMeta = string
type_synonym LocalObjectReference = string
type_synonym ResourceRequirements = string
type_synonym Affinity = string
type_synonym Toleration = string
type_synonym Volume = string
type_synonym VolumeMount = string
type_synonym PersistentVolumeClaim = string

record Container =
  Image :: string
  Name :: string
  Command :: "string list"
  VolumeMounts :: "VolumeMount list"
  Resources :: ResourceRequirements

record PodSpec =
  ImagePullSecrets :: "LocalObjectReference list"
  SetHostnameAsFQDN :: "bool option"
  Containers :: "Container list"
  InitContainers :: "Container list"
  Volumes :: "Volume list"
  PodAffinity :: "Affinity option"
  NodeSelector :: "(string \<times> string) list"
  Tolerations :: "Toleration list"

record PodTemplateSpec =
  TemplateMeta :: ObjectMeta
  TemplateSpec :: PodSpec

text \<open>
  \<^verbatim>\<open>Spec.Replicas\<close> is a \<^verbatim>\<open>*int32\<close>. An object read from the cluster owns the cell its
  pointer leads to, so there the pointer is the number itself (\<open>32 word\<close>). An object
  built by the server may instead hold the address of the \<^verbatim>\<open>InstanceCount\<close> field of the
  instance spec (\<^verbatim>\<open>&s.instanceSpec.InstanceCount\<close>): what it reads then is whatever the
  instance spec holds at that moment. The type of the pointer is the parameter of the
  two records.
\<close>

datatype int32_ptr = Int32_cell "32 word" | InstanceCount_addr

record 'r StatefulSetSpec =
  Replicas :: "'r option"
  ServiceName :: string
  VolumeClaimTemplates :: "PersistentVolumeClaim list"
  Template :: PodTemplateSpec

record 'r StatefulSet =
  Meta :: ObjectMeta
  Spec :: "'r StatefulSetSpec"

subsection \<open>The cluster resource (package api/v1)\<close>

text \<open>
  Modelled from the spec: the type \<^verbatim>\<open>ClusterState\<close> of api/v1 is not among the
  sources. The spec lists the states Creating, Running, Reconfiguration (the code's
  \<^verbatim>\<open>ClusterStateUpdating\<close>), Updated and CreationFailed.
\<close>

datatype ClusterState =
    ClusterStateCreating
  | ClusterStateRunning
  | ClusterStateUpdating
  | ClusterStateUpdated
  | ClusterStateCreationFailed

type_synonym Location = "string \<times> string"
type_synonym YtVolumeMount = string
type_synonym YtVolume = string
type_synonym EmbeddedPersistentVolumeClaim = string

record InstanceSpec =
  InstanceImage :: "string option"
  InstanceCount :: "32 word"
  Locations :: "Location list"
  SpecVolumeMounts :: "YtVolumeMount list"
  SpecVolumes :: "YtVolume list"
  SpecVolumeClaimTemplates :: "EmbeddedPersistentVolumeClaim list"
  SpecResources :: ResourceRequirements
  SpecAffinity :: "Affinity option"
  SpecNodeSelector :: "(string \<times> string) list"
  SpecTolerations :: "Toleration list"

record YtsaurusSpec =
  CoreImage :: string
  SpecImagePullSecrets :: "LocalObjectReference list"
  ConfigOverrides :: "LocalObjectReference option"
  ControllerAgents :: InstanceSpec

record YtsaurusResource =
  ResourceMeta :: ObjectMeta
  ResourceSpec :: YtsaurusSpec
  State :: ClusterState

text \<open>
  \<^verbatim>\<open>apiproxy.Ytsaurus\<close> wraps the cluster resource and a client handle;
  \<^verbatim>\<open>GetResource\<close> and \<^verbatim>\<open>GetClusterState\<close> read the wrapped resource.
\<close>

type_synonym APIProxy = string

record Ytsaurus =
  Resource :: YtsaurusResource
  Proxy :: APIProxy

definition GetResource :: "Ytsaurus \<Rightarrow> YtsaurusResource" where
  "GetResource y = Resource y"

definition GetClusterState :: "Ytsaurus \<Rightarrow> ClusterState" where
  "GetClusterState y = State (Resource y)"

record Labeller =
  LabellerMeta :: ObjectMeta
  LabellerProxy :: APIProxy
  ComponentLabel :: string
  ComponentName :: string

subsection \<open>Fetched resources (package resources) and the config helper\<close>

text \<open>
  Modelled from the spec: the package \<^verbatim>\<open>resources\<close> and the type \<^verbatim>\<open>ConfigHelper\<close>
  are not among the sources. The spec gives the Resource Accessor the primitive
  \<^verbatim>\<open>exists(objectRef) \<rightarrow> bool\<close>, so each fetched resource carries the flag that
  \<^verbatim>\<open>resources.Exists\<close> returns; the workload set also carries the object last read from
  the cluster (\<^verbatim>\<open>OldObject()\<close>), the object its \<^verbatim>\<open>Build()\<close> hands out, and what
  \<^verbatim>\<open>ArePodsReady\<close> observes. The config helper carries its file name and the answers
  of \<^verbatim>\<open>NeedSync()\<close> and \<^verbatim>\<open>NeedReload()\<close>, the latter a Go pair of a bool and an
  error.
\<close>

record resources_StatefulSet =
  sts_name :: string
  sts_exists :: bool
  sts_oldObject :: "32 word StatefulSet"
  sts_newObject :: "int32_ptr StatefulSet"
  sts_podsReady :: bool

record HeadlessService =
  hs_name :: string
  hs_exists :: bool

record MonitoringService =
  ms_exists :: bool

type_synonym GeneratorFunc = string

record ConfigHelper =
  cfg_fileName :: string
  cfg_needSync :: bool
  cfg_needReload :: "bool \<times> error option"

definition OldObject :: "resources_StatefulSet \<Rightarrow> 32 word StatefulSet" where
  "OldObject r = sts_oldObject r"

definition GetFileName :: "ConfigHelper \<Rightarrow> string" where
  "GetFileName h = cfg_fileName h"

definition NeedReload :: "ConfigHelper \<Rightarrow> bool \<times> error option" where
  "NeedReload h = cfg_needReload h"

text \<open>
  Modelled from the spec: \<^verbatim>\<open>resources.StatefulSet.NeedSync(replicas)\<close> is not among the
  sources. The spec's words for it are "the workload set's replica count does not match
  the instance spec": the replica count of the fetched object (a pointer in Kubernetes,
  so possibly nil) is compared with the count passed in.
\<close>

definition StatefulSet_NeedSync :: "resources_StatefulSet \<Rightarrow> 32 word \<Rightarrow> bool" where
  "StatefulSet_NeedSync r replicas \<longleftrightarrow> Replicas (Spec (OldObject r)) \<noteq> Some replicas"

subsection \<open>The managed server\<close>

record server =
  srv_image :: string
  labeller :: Labeller
  ytsaurus :: Ytsaurus
  binaryPath :: string
  instanceSpec :: InstanceSpec
  statefulSet :: resources_StatefulSet
  headlessService :: HeadlessService
  monitoringService :: MonitoringService
  builtStatefulSet :: "int32_ptr StatefulSet option"
  readyCondition :: string
  configHelper :: ConfigHelper
  syncCalls :: nat

text \<open>
  The field \<open>syncCalls\<close> is not in the Go struct: it counts the calls of
  \<^verbatim>\<open>resources.Sync\<close> made through this server, so that "Sync was invoked" can be
  stated.
\<close>

definition server_exists :: "server \<Rightarrow> bool" where
  "server_exists s \<longleftrightarrow>
     sts_exists (statefulSet s) \<and> hs_exists (headlessService s) \<and> ms_exists (monitoringService s)"

definition NeedSync :: "server \<Rightarrow> bool" where
  "NeedSync s \<longleftrightarrow>
     cfg_needSync (configHelper s) \<or> \<not> server_exists s \<or>
     StatefulSet_NeedSync (statefulSet s) (InstanceCount (instanceSpec s))"

definition ArePodsRemoved :: "server \<Rightarrow> bool" where
  "ArePodsRemoved s =
     (if cfg_needSync (configHelper s) \<or> \<not> sts_exists (statefulSet s) \<or> \<not> hs_exists (headlessService s)
      then False
      else \<not> StatefulSet_NeedSync (statefulSet s) 0)"

text \<open>
  \<^verbatim>\<open>Containers[0]\<close> panics in Go when the fetched pod template has no container.
\<close>

definition imageCorrespondsToSpec :: "server \<Rightarrow> bool result" where
  "imageCorrespondsToSpec s =
     (case Containers (TemplateSpec (Template (Spec (OldObject (statefulSet s))))) of
        [] \<Rightarrow> Panicked IndexOutOfRange
      | c # _ \<Rightarrow> Returned (Image c = srv_image s))"

definition NeedUpdate :: "server \<Rightarrow> bool result" where
  "NeedUpdate s =
     (if \<not> server_exists s then Returned False
      else case imageCorrespondsToSpec s of
        Panicked p \<Rightarrow> Panicked p
      | Returned corresponds \<Rightarrow>
          if \<not> corresponds then Returned True
          else case NeedReload (configHelper s) of
            (needReload, err) \<Rightarrow> if err \<noteq> None then Returned False else Returned needReload)"

definition ArePodsReady :: "server \<Rightarrow> bool" where
  "ArePodsReady s = sts_podsReady (statefulSet s)"

subsection \<open>Component statuses and the controller agent\<close>

text \<open>
  Modelled from the spec: the types \<^verbatim>\<open>SyncStatus\<close> and \<^verbatim>\<open>ComponentStatus\<close> and the
  constructors \<^verbatim>\<open>SimpleStatus\<close> and \<^verbatim>\<open>WaitingStatus\<close> are not among the sources. The
  spec describes a component status as a sync status (Ready, Pending, Blocked,
  NeedLocalUpdate, NeedFullUpdate, NeedRestart) "plus an optional free-text reason":
  \<^verbatim>\<open>SimpleStatus\<close> gives no reason, \<^verbatim>\<open>WaitingStatus\<close> carries the one passed in.
\<close>

datatype SyncStatus =
    SyncStatusReady
  | SyncStatusPending
  | SyncStatusBlocked
  | SyncStatusNeedLocalUpdate
  | SyncStatusNeedFullUpdate
  | SyncStatusNeedRestart

record ComponentStatus =
  SyncStatus_of :: SyncStatus
  Reason :: "string option"

definition SimpleStatus :: "SyncStatus \<Rightarrow> ComponentStatus" where
  "SimpleStatus st = \<lparr>SyncStatus_of = st, Reason = None\<rparr>"

definition WaitingStatus :: "SyncStatus \<Rightarrow> string \<Rightarrow> ComponentStatus" where
  "WaitingStatus st event = \<lparr>SyncStatus_of = st, Reason = Some event\<rparr>"

text \<open>
  A dependency is a value of the Go interface \<^verbatim>\<open>Component\<close>; the controller agent calls
  its \<^verbatim>\<open>GetName()\<close> and its \<^verbatim>\<open>Status(ctx)\<close>. The record holds what the two calls
  return.
\<close>

record Component =
  comp_name :: string
  comp_status :: ComponentStatus

definition GetName :: "Component \<Rightarrow> string" where
  "GetName c = comp_name c"

definition Component_Status :: "Component \<Rightarrow> ComponentStatus" where
  "Component_Status c = comp_status c"

record Generator =
  GetControllerAgentConfig :: GeneratorFunc

text \<open>
  \<^verbatim>\<open>ControllerAgent\<close> embeds \<^verbatim>\<open>localServerComponent\<close>, which is not among the sources;
  the fields the file reads through it (\<^verbatim>\<open>ca.ytsaurus\<close>, \<^verbatim>\<open>ca.server\<close>) are fields of
  the record.
\<close>

record ControllerAgent =
  ca_labeller :: Labeller
  ca_ytsaurus :: Ytsaurus
  ca_server :: server
  cfgen :: Generator
  master :: Component

subsection \<open>Code of the repository that the two files call and that is not among the sources\<close>

text \<open>
  The constants of package \<^verbatim>\<open>consts\<close>, the helpers that translate the instance spec
  into Kubernetes payloads, the constructors of the fetched resources,
  \<^verbatim>\<open>resources.Sync\<close>, the two predicates \<^verbatim>\<open>IsReadyToUpdateClusterState\<close> and
  \<^verbatim>\<open>IsRunningStatus\<close>, the shared handler \<^verbatim>\<open>handleUpdatingClusterState\<close> and the
  library function \<^verbatim>\<open>path.Join\<close> are parameters: every definition below takes a value
  of this record and every theorem holds for all of them. The handler is given the
  component and the dry-run flag and answers with the Go pair of a status pointer and an
  error; \<^verbatim>\<open>resources.Sync\<close> is given the server whose objects it writes and answers with
  its error.
\<close>

record pkg =
  ConfigMountPoint :: string
  YTServerContainerName :: string
  PrepareLocationsContainerName :: string
  YTComponentLabelControllerAgent :: string
  path_Join :: "string \<Rightarrow> string \<Rightarrow> string"
  getLocationInitCommand :: "Location list \<Rightarrow> string"
  createVolumeMounts :: "YtVolumeMount list \<Rightarrow> VolumeMount list"
  createVolumeClaims :: "EmbeddedPersistentVolumeClaim list \<Rightarrow> PersistentVolumeClaim list"
  createVolumes :: "YtVolume list \<Rightarrow> string \<Rightarrow> Volume list"
  GetMainConfigMapName :: "Labeller \<Rightarrow> string"
  NewStatefulSet :: "string \<Rightarrow> Labeller \<Rightarrow> Ytsaurus \<Rightarrow> resources_StatefulSet"
  NewHeadlessService :: "string \<Rightarrow> Labeller \<Rightarrow> APIProxy \<Rightarrow> HeadlessService"
  NewMonitoringService :: "Labeller \<Rightarrow> APIProxy \<Rightarrow> MonitoringService"
  NewConfigHelper ::
    "Labeller \<Rightarrow> APIProxy \<Rightarrow> string \<Rightarrow> string \<Rightarrow> LocalObjectReference option \<Rightarrow> GeneratorFunc
       \<Rightarrow> ConfigHelper"
  resources_Sync :: "server \<Rightarrow> error option"
  IsReadyToUpdateClusterState :: "ClusterState \<Rightarrow> bool"
  IsRunningStatus :: "SyncStatus \<Rightarrow> bool"
  handleUpdatingClusterState :: "ControllerAgent \<Rightarrow> bool \<Rightarrow> ComponentStatus option \<times> error option"

subsection \<open>Constructing the server and building the workload set\<close>

definition NewServer ::
  "pkg \<Rightarrow> Labeller \<Rightarrow> Ytsaurus \<Rightarrow> InstanceSpec \<Rightarrow> string \<Rightarrow> string \<Rightarrow> string \<Rightarrow> string \<Rightarrow> GeneratorFunc
     \<Rightarrow> server" where
  "NewServer p l yt spec binPath configFileName statefulSetName serviceName generator =
     (let image = (case InstanceImage spec of
                     Some override \<Rightarrow> override
                   | None \<Rightarrow> CoreImage (ResourceSpec (GetResource yt)))
      in \<lparr>srv_image = image,
          labeller = l,
          ytsaurus = yt,
          binaryPath = binPath,
          instanceSpec = spec,
          statefulSet = NewStatefulSet p statefulSetName l yt,
          headlessService = NewHeadlessService p serviceName l (Proxy yt),
          monitoringService = NewMonitoringService p l (Proxy yt),
          builtStatefulSet = None,
          readyCondition = ComponentName l @ ''Ready'',
          configHelper =
            NewConfigHelper p l (Proxy yt) (GetMainConfigMapName p l) configFileName
              (ConfigOverrides (ResourceSpec (GetResource yt))) generator,
          syncCalls = 0\<rparr>)"

text \<open>
  \<^verbatim>\<open>s.statefulSet.Build()\<close> hands out a pointer to the object that
  \<^verbatim>\<open>resources.Sync\<close> later writes, and \<^verbatim>\<open>RebuildStatefulSet\<close> assigns to fields of
  that object: the model writes the finished object back into the resource as well as
  into the cache.
\<close>

definition StatefulSet_Build :: "resources_StatefulSet \<Rightarrow> int32_ptr StatefulSet" where
  "StatefulSet_Build r = sts_newObject r"

text \<open>
  Reading a replica count through its pointer: a cell gives its own number, the address
  of \<^verbatim>\<open>InstanceCount\<close> gives the count the server's instance spec holds now. The field
  \<open>instanceSpec\<close> of the server stands for the object that \<^verbatim>\<open>s.instanceSpec\<close> points to,
  so an update of it is a change of that object in place. The other payloads of the
  instance spec are values here: the model covers assignments to fields of the instance
  spec, not writes inside a map or slice that a built object shares with it.
\<close>

definition load_int32 :: "InstanceSpec \<Rightarrow> int32_ptr \<Rightarrow> 32 word" where
  "load_int32 spec ptr = (case ptr of Int32_cell n \<Rightarrow> n | InstanceCount_addr \<Rightarrow> InstanceCount spec)"

definition replicas_of :: "server \<Rightarrow> int32_ptr StatefulSet \<Rightarrow> 32 word option" where
  "replicas_of s obj = map_option (load_int32 (instanceSpec s)) (Replicas (Spec obj))"

definition RebuildStatefulSet :: "pkg \<Rightarrow> server \<Rightarrow> int32_ptr StatefulSet \<times> server" where
  "RebuildStatefulSet p s =
     (let locationCreationCommand = getLocationInitCommand p (Locations (instanceSpec s));
          volumeMounts = createVolumeMounts p (SpecVolumeMounts (instanceSpec s));
          statefulSet0 = StatefulSet_Build (statefulSet s);
          podSpec =
            \<lparr>ImagePullSecrets = SpecImagePullSecrets (ResourceSpec (GetResource (ytsaurus s))),
             SetHostnameAsFQDN = Some True,
             Containers =
               [\<lparr>Image = srv_image s,
                 Name = YTServerContainerName p,
                 Command =
                   [binaryPath s, ''--config'',
                    path_Join p (ConfigMountPoint p) (GetFileName (configHelper s))],
                 VolumeMounts = volumeMounts,
                 Resources = SpecResources (instanceSpec s)\<rparr>],
             InitContainers =
               [\<lparr>Image = srv_image s,
                 Name = PrepareLocationsContainerName p,
                 Command = [''bash'', ''-c'', locationCreationCommand],
                 VolumeMounts = volumeMounts,
                 Resources = []\<rparr>],
             Volumes = createVolumes p (SpecVolumes (instanceSpec s)) (GetMainConfigMapName p (labeller s)),
             PodAffinity = SpecAffinity (instanceSpec s),
             NodeSelector = SpecNodeSelector (instanceSpec s),
             Tolerations = SpecTolerations (instanceSpec s)\<rparr>;
          built =
            statefulSet0\<lparr>Spec :=
              (Spec statefulSet0)
                \<lparr>Replicas := Some InstanceCount_addr,
                 ServiceName := hs_name (headlessService s),
                 VolumeClaimTemplates := createVolumeClaims p (SpecVolumeClaimTemplates (instanceSpec s)),
                 Template := (Template (Spec statefulSet0))\<lparr>TemplateSpec := podSpec\<rparr>\<rparr>\<rparr>
      in (built,
          s\<lparr>statefulSet := (statefulSet s)\<lparr>sts_newObject := built\<rparr>,
            builtStatefulSet := Some built\<rparr>))"

definition BuildStatefulSet :: "pkg \<Rightarrow> server \<Rightarrow> int32_ptr StatefulSet \<times> server" where
  "BuildStatefulSet p s =
     (case builtStatefulSet s of
        Some cached \<Rightarrow> (cached, s)
      | None \<Rightarrow> RebuildStatefulSet p s)"

text \<open>
  \<^verbatim>\<open>server.Sync\<close> builds the four objects and hands them to \<^verbatim>\<open>resources.Sync\<close>. Of
  the four builds only the workload set's is in the sources; the other three leave no
  trace in this model.
\<close>

definition server_Sync :: "pkg \<Rightarrow> server \<Rightarrow> error option \<times> server" where
  "server_Sync p s =
     (let s1 = snd (BuildStatefulSet p s)
      in (resources_Sync p s1, s1\<lparr>syncCalls := Suc (syncCalls s1)\<rparr>))"

subsection \<open>The controller agent\<close>

definition NewControllerAgent :: "pkg \<Rightarrow> Generator \<Rightarrow> Ytsaurus \<Rightarrow> Component \<Rightarrow> ControllerAgent" where
  "NewControllerAgent p gen yt mstr =
     (let resource = GetResource yt;
          l = \<lparr>LabellerMeta = ResourceMeta resource,
               LabellerProxy = Proxy yt,
               ComponentLabel = YTComponentLabelControllerAgent p,
               ComponentName = ''ControllerAgent''\<rparr>;
          srv = NewServer p l yt (ControllerAgents (ResourceSpec resource))
                  ''/usr/bin/ytserver-controller-agent''
                  ''ytserver-controller-agent.yson''
                  ''ca''
                  ''controller-agents''
                  (GetControllerAgentConfig gen)
      in \<lparr>ca_labeller = l, ca_ytsaurus = yt, ca_server = srv, cfgen = gen, master = mstr\<rparr>)"

definition IsUpdatable :: "ControllerAgent \<Rightarrow> bool" where
  "IsUpdatable ca = True"

text \<open>
  \<^verbatim>\<open>ca.NeedSync()\<close> is the method of the embedded \<^verbatim>\<open>localServerComponent\<close>, which
  is not among the sources; it is taken to ask the server, as the spec's rule 4 and the
  other calls of \<^verbatim>\<open>doSync\<close> (\<^verbatim>\<open>ca.server.needUpdate()\<close>,
  \<^verbatim>\<open>ca.server.arePodsReady(ctx)\<close>) do.

  \<^verbatim>\<open>doSync\<close> returns the status, the error and the component after the call. The
  \<^verbatim>\<open>&&\<close> of the first rule does not call \<^verbatim>\<open>needUpdate\<close> when its left side is false.
  In the second rule the handler's error goes out only together with a status: the
  \<^verbatim>\<open>err\<close> of the \<^verbatim>\<open>if\<close> statement shadows the outer one and is lost when the status
  is nil.
\<close>

definition doSync ::
  "pkg \<Rightarrow> ControllerAgent \<Rightarrow> bool \<Rightarrow> (ComponentStatus \<times> error option \<times> ControllerAgent) result" where
  "doSync p ca dry =
     (case (if IsReadyToUpdateClusterState p (GetClusterState (ca_ytsaurus ca))
            then NeedUpdate (ca_server ca) else Returned False) of
        Panicked pn \<Rightarrow> Panicked pn
      | Returned True \<Rightarrow> Returned (SimpleStatus SyncStatusNeedLocalUpdate, None, ca)
      | Returned False \<Rightarrow>
          (case (if GetClusterState (ca_ytsaurus ca) = ClusterStateUpdating
                 then handleUpdatingClusterState p ca dry else (None, None)) of
             (Some status, err) \<Rightarrow> Returned (status, err, ca)
           | (None, _) \<Rightarrow>
               if \<not> IsRunningStatus p (SyncStatus_of (Component_Status (master ca)))
               then Returned (WaitingStatus SyncStatusBlocked (GetName (master ca)), None, ca)
               else if NeedSync (ca_server ca)
               then (if \<not> dry
                     then (case server_Sync p (ca_server ca) of
                             (err, srv) \<Rightarrow>
                               Returned (WaitingStatus SyncStatusPending ''components'', err,
                                         ca\<lparr>ca_server := srv\<rparr>))
                     else Returned (WaitingStatus SyncStatusPending ''components'', None, ca))
               else if \<not> ArePodsReady (ca_server ca)
               then Returned (WaitingStatus SyncStatusBlocked ''pods'', None, ca)
               else Returned (SimpleStatus SyncStatusReady, None, ca)))"

definition Status :: "pkg \<Rightarrow> ControllerAgent \<Rightarrow> (ComponentStatus \<times> ControllerAgent) result" where
  "Status p ca =
     (case doSync p ca True of
        Panicked pn \<Rightarrow> Panicked pn
      | Returned (status, err, ca') \<Rightarrow>
          (case err of
             Some e \<Rightarrow> Panicked (PanicError e)
           | None \<Rightarrow> Returned (status, ca')))"

definition Sync :: "pkg \<Rightarrow> ControllerAgent \<Rightarrow> (error option \<times> ControllerAgent) result" where
  "Sync p ca =
     (case doSync p ca False of
        Panicked pn \<Rightarrow> Panicked pn
      | Returned (status, err, ca') \<Rightarrow> Returned (err, ca'))"

subsection \<open>The update handler, from the spec\<close>



subsection \<open>When the first two rules of \<open>doSync\<close> do not fire\<close>

text \<open>
  Two conditions on the values the source computes, named for the statements below.
  The first rule does not fire when the cluster state does not permit an update or
  \<^verbatim>\<open>needUpdate\<close> returns false; the second does not fire when the cluster state is not
  \<^verbatim>\<open>ClusterStateUpdating\<close> or the handler's status pointer is nil.
\<close>

abbreviation update_not_flagged :: "pkg \<Rightarrow> ControllerAgent \<Rightarrow> bool" where
  "update_not_flagged p ca \<equiv>
     \<not> IsReadyToUpdateClusterState p (GetClusterState (ca_ytsaurus ca)) \<or>
     NeedUpdate (ca_server ca) = Returned False"

abbreviation update_not_handled :: "pkg \<Rightarrow> ControllerAgent \<Rightarrow> bool \<Rightarrow> bool" where
  "update_not_handled p ca dry \<equiv>
     GetClusterState (ca_ytsaurus ca) \<noteq> ClusterStateUpdating \<or>
     fst (handleUpdatingClusterState p ca dry) = None"

subsection \<open>The spec's wording of the two predicates\<close>

text \<open>
  These two definitions follow the sentences of the spec, not the code; the theorems
  below compare them with \<open>NeedSync\<close> and \<open>NeedUpdate\<close>.
\<close>

definition all_owned_objects_exist :: "server \<Rightarrow> bool" where
  "all_owned_objects_exist s \<longleftrightarrow>
     (\<forall>present \<in> {sts_exists (statefulSet s), hs_exists (headlessService s),
                   ms_exists (monitoringService s)}. present)"

definition NeedSync_spec :: "server \<Rightarrow> bool" where
  "NeedSync_spec s \<longleftrightarrow>
     cfg_needSync (configHelper s) \<or>
     \<not> all_owned_objects_exist s \<or>
     Replicas (Spec (sts_oldObject (statefulSet s))) \<noteq> Some (InstanceCount (instanceSpec s))"

definition NeedUpdate_spec :: "server \<Rightarrow> Container \<Rightarrow> bool" where
  "NeedUpdate_spec s deployed \<longleftrightarrow>
     all_owned_objects_exist s \<and>
     (Image deployed \<noteq> srv_image s \<or> cfg_needReload (configHelper s) = (True, None))"

subsection \<open>Example inputs\<close>

text \<open>
  The sample cluster of the repository (\<^verbatim>\<open>minisaurus\<close>): one controller agent, no image
  override, the core image \<^verbatim>\<open>ytsaurus/ytsaurus:stable-23.1.0-relwithdebinfo\<close>.
\<close>

definition minisaurus_controllerAgents :: InstanceSpec where
  "minisaurus_controllerAgents =
     \<lparr>InstanceImage = None, InstanceCount = 1, Locations = [], SpecVolumeMounts = [],
      SpecVolumes = [], SpecVolumeClaimTemplates = [], SpecResources = [],
      SpecAffinity = None, SpecNodeSelector = [], SpecTolerations = []\<rparr>"

definition minisaurus :: "ClusterState \<Rightarrow> Ytsaurus" where
  "minisaurus cs =
     \<lparr>Resource =
        \<lparr>ResourceMeta = ''minisaurus'',
         ResourceSpec =
           \<lparr>CoreImage = ''ytsaurus/ytsaurus:stable-23.1.0-relwithdebinfo'',
            SpecImagePullSecrets = [],
            ConfigOverrides = Some ''minisaurus-overrides'',
            ControllerAgents = minisaurus_controllerAgents\<rparr>,
         State = cs\<rparr>,
      Proxy = ''client''\<rparr>"

definition empty_StatefulSet :: "'r StatefulSet" where
  "empty_StatefulSet =
     \<lparr>Meta = [],
      Spec = \<lparr>Replicas = None, ServiceName = [], VolumeClaimTemplates = [],
              Template = \<lparr>TemplateMeta = [],
                          TemplateSpec = \<lparr>ImagePullSecrets = [], SetHostnameAsFQDN = None,
                                          Containers = [], InitContainers = [], Volumes = [],
                                          PodAffinity = None, NodeSelector = [],
                                          Tolerations = []\<rparr>\<rparr>\<rparr>\<rparr>"

text \<open>
  One choice of the parameters: update may start in the state Running, the Ready family
  is Ready alone, the update handler answers with a status as long as the pods are not
  ready (and with an error as well when it is not a dry run), writes succeed, and new
  resource handles know of no object in the cluster.
\<close>

definition example_pkg :: pkg where
  "example_pkg =
     \<lparr>ConfigMountPoint = ''/config'',
      YTServerContainerName = ''ytserver'',
      PrepareLocationsContainerName = ''prepare-locations'',
      YTComponentLabelControllerAgent = ''yt-controller-agent'',
      path_Join = (\<lambda>dir file. dir @ ''/'' @ file),
      getLocationInitCommand = (\<lambda>ls. concat (map (\<lambda>l. ''mkdir -p '' @ snd l @ ''; '') ls)),
      createVolumeMounts = (\<lambda>ms. ms),
      createVolumeClaims = (\<lambda>cs. cs),
      createVolumes = (\<lambda>vs configMap. vs @ [configMap]),
      GetMainConfigMapName = (\<lambda>l. ComponentLabel l @ ''-config''),
      NewStatefulSet = (\<lambda>name l yt.
        \<lparr>sts_name = name, sts_exists = False, sts_oldObject = empty_StatefulSet,
         sts_newObject = empty_StatefulSet\<lparr>Meta := name\<rparr>, sts_podsReady = False\<rparr>),
      NewHeadlessService = (\<lambda>name l proxy. \<lparr>hs_name = name, hs_exists = False\<rparr>),
      NewMonitoringService = (\<lambda>l proxy. \<lparr>ms_exists = False\<rparr>),
      NewConfigHelper = (\<lambda>l proxy configMap fileName overrides generator.
        \<lparr>cfg_fileName = fileName, cfg_needSync = True, cfg_needReload = (False, None)\<rparr>),
      resources_Sync = (\<lambda>s. None),
      IsReadyToUpdateClusterState = (\<lambda>cs. cs = ClusterStateRunning),
      IsRunningStatus = (\<lambda>st. st = SyncStatusReady),
      handleUpdatingClusterState = (\<lambda>ca dry.
        if ArePodsReady (ca_server ca) then (None, None)
        else (Some (WaitingStatus SyncStatusPending ''pods removal''),
              if dry then None else Some (Error ''pods removal failed'')))\<rparr>"

definition failing_pkg :: pkg where
  "failing_pkg = example_pkg\<lparr>resources_Sync := (\<lambda>s. Some (Error ''conflict''))\<rparr>"

definition example_master :: "SyncStatus \<Rightarrow> Component" where
  "example_master st = \<lparr>comp_name = ''Master'', comp_status = SimpleStatus st\<rparr>"

text \<open>
  A controller agent as constructed, before anything exists in the cluster, and the same
  agent after a fetch that found all three objects, with one deployed container of the
  given image, the given replica count and the given pod readiness.
\<close>

definition fresh_agent :: "ClusterState \<Rightarrow> SyncStatus \<Rightarrow> ControllerAgent" where
  "fresh_agent cs st =
     NewControllerAgent example_pkg \<lparr>GetControllerAgentConfig = ''controller-agent''\<rparr>
       (minisaurus cs) (example_master st)"

definition deployed_StatefulSet :: "string \<Rightarrow> 32 word \<Rightarrow> 32 word StatefulSet" where
  "deployed_StatefulSet img n =
     \<lparr>Meta = ''ca'',
      Spec = \<lparr>Replicas = Some n, ServiceName = ''controller-agents'', VolumeClaimTemplates = [],
              Template = \<lparr>TemplateMeta = [],
                          TemplateSpec = \<lparr>ImagePullSecrets = [], SetHostnameAsFQDN = Some True,
                                          Containers = [\<lparr>Image = img, Name = ''ytserver'',
                                                         Command = [], VolumeMounts = [],
                                                         Resources = []\<rparr>],
                                          InitContainers = [], Volumes = [],
                                          PodAffinity = None, NodeSelector = [],
                                          Tolerations = []\<rparr>\<rparr>\<rparr>\<rparr>"

definition fetched_server :: "string \<Rightarrow> 32 word \<Rightarrow> bool \<Rightarrow> server \<Rightarrow> server" where
  "fetched_server img n ready s =
     s\<lparr>statefulSet := (statefulSet s)\<lparr>sts_exists := True,
                                      sts_oldObject := deployed_StatefulSet img n,
                                      sts_podsReady := ready\<rparr>,
       headlessService := (headlessService s)\<lparr>hs_exists := True\<rparr>,
       monitoringService := \<lparr>ms_exists = True\<rparr>,
       configHelper := (configHelper s)\<lparr>cfg_needSync := False\<rparr>\<rparr>"

definition fetched_agent ::
  "ClusterState \<Rightarrow> SyncStatus \<Rightarrow> string \<Rightarrow> 32 word \<Rightarrow> bool \<Rightarrow> ControllerAgent" where
  "fetched_agent cs st img n ready =
     (fresh_agent cs st)\<lparr>ca_server := fetched_server img n ready (ca_server (fresh_agent cs st))\<rparr>"

text \<open>
  A fetched server whose config helper fails to tell whether a reload is needed.
\<close>

definition reload_failed :: "server \<Rightarrow> server" where
  "reload_failed s =
     s\<lparr>configHelper := (configHelper s)\<lparr>cfg_needReload := (True, Some (Error ''generator''))\<rparr>\<rparr>"



text \<open>
  A change of the instance spec in place: five instances and one more volume.
\<close>

definition respecified :: "server \<Rightarrow> server" where
  "respecified s =
     s\<lparr>instanceSpec := (instanceSpec s)\<lparr>InstanceCount := 5, SpecVolumes := [''spill'']\<rparr>\<rparr>"

section \<open>Properties\<close>

subsection \<open>The example inputs, evaluated\<close>

lemmas example_defs = fresh_agent_def fetched_agent_def fetched_server_def
  deployed_StatefulSet_def example_master_def failing_pkg_def example_pkg_def
  empty_StatefulSet_def minisaurus_def minisaurus_controllerAgents_def NewControllerAgent_def
  NewServer_def GetResource_def GetClusterState_def Component_Status_def GetName_def Let_def

lemma fresh_agent_observed:
  "GetClusterState (ca_ytsaurus (fresh_agent cs st)) = cs"
  "SyncStatus_of (Component_Status (master (fresh_agent cs st))) = st"
  "GetName (master (fresh_agent cs st)) = ''Master''"
  "server_exists (ca_server (fresh_agent cs st)) = False"
  "NeedUpdate (ca_server (fresh_agent cs st)) = Returned False"
  "NeedSync (ca_server (fresh_agent cs st)) = True"
  "ArePodsRemoved (ca_server (fresh_agent cs st)) = False"
  "builtStatefulSet (ca_server (fresh_agent cs st)) = None"
  "syncCalls (ca_server (fresh_agent cs st)) = 0"
  by (simp_all add: example_defs SimpleStatus_def NeedUpdate_def NeedSync_def server_exists_def
      ArePodsRemoved_def)

lemma fetched_agent_observed:
  "GetClusterState (ca_ytsaurus (fetched_agent cs st img n ready)) = cs"
  "SyncStatus_of (Component_Status (master (fetched_agent cs st img n ready))) = st"
  "GetName (master (fetched_agent cs st img n ready)) = ''Master''"
  "server_exists (ca_server (fetched_agent cs st img n ready)) = True"
  "NeedUpdate (ca_server (fetched_agent cs st img n ready)) =
     Returned (img \<noteq> ''ytsaurus/ytsaurus:stable-23.1.0-relwithdebinfo'')"
  "NeedSync (ca_server (fetched_agent cs st img n ready)) = (n \<noteq> 1)"
  "ArePodsReady (ca_server (fetched_agent cs st img n ready)) = ready"
  "ArePodsRemoved (ca_server (fetched_agent cs st img n ready)) = (n = 0)"
  by (auto simp add: example_defs SimpleStatus_def NeedUpdate_def NeedSync_def server_exists_def
      ArePodsRemoved_def imageCorrespondsToSpec_def OldObject_def NeedReload_def
      StatefulSet_NeedSync_def ArePodsReady_def)

lemma example_pkg_observed:
  "IsReadyToUpdateClusterState example_pkg cs = (cs = ClusterStateRunning)"
  "IsRunningStatus example_pkg st = (st = SyncStatusReady)"
  "handleUpdatingClusterState example_pkg ca dry =
     (if ArePodsReady (ca_server ca) then (None, None)
      else (Some (WaitingStatus SyncStatusPending ''pods removal''),
            if dry then None else Some (Error ''pods removal failed'')))"
  "resources_Sync example_pkg s = None"
  "IsReadyToUpdateClusterState failing_pkg cs = (cs = ClusterStateRunning)"
  "IsRunningStatus failing_pkg st = (st = SyncStatusReady)"
  "handleUpdatingClusterState failing_pkg = handleUpdatingClusterState example_pkg"
  "resources_Sync failing_pkg s = Some (Error ''conflict'')"
  by (simp_all add: example_pkg_def failing_pkg_def)

subsection \<open>The predicates of the managed server\<close>

text \<open>
  Claim C5. \<open>NeedSync\<close> is true exactly when the config artifact is stale, or one of the
  three owned objects (workload set, headless service, monitoring service) does not
  exist, or the replica count of the fetched workload set is not the instance spec's
  replica count.
\<close>

theorem NeedSync_matches_spec: "NeedSync s \<longleftrightarrow> NeedSync_spec s"
  by (simp add: NeedSync_def NeedSync_spec_def server_exists_def all_owned_objects_exist_def
      StatefulSet_NeedSync_def OldObject_def)

theorem NeedSync_matches_spec_witness:
  "NeedSync_spec (ca_server (fetched_agent ClusterStateRunning SyncStatusReady ''img'' 3 True)) \<and>
   \<not> NeedSync_spec (ca_server (fetched_agent ClusterStateRunning SyncStatusReady ''img'' 1 True)) \<and>
   NeedSync_spec (ca_server (fresh_agent ClusterStateRunning SyncStatusReady))"
  using NeedSync_matches_spec [of "ca_server (fetched_agent ClusterStateRunning SyncStatusReady ''img'' 3 True)"]
    NeedSync_matches_spec [of "ca_server (fetched_agent ClusterStateRunning SyncStatusReady ''img'' 1 True)"]
    NeedSync_matches_spec [of "ca_server (fresh_agent ClusterStateRunning SyncStatusReady)"]
  by (simp add: fetched_agent_observed fresh_agent_observed)

text \<open>
  Claim C4. \<open>NeedUpdate\<close> returns false whenever one of the owned objects does not exist.
  When the fetched workload set has a first container \<open>c\<close> (a workload set stored in the
  cluster always has one), \<open>NeedUpdate\<close> returns true exactly when all owned objects
  exist and the image of \<open>c\<close> differs from the server's resolved image or the config
  helper reports, without error, that a reload is needed.
\<close>

theorem NeedUpdate_matches_spec:
  "(\<not> all_owned_objects_exist s \<longrightarrow> NeedUpdate s = Returned False) \<and>
   (Containers (TemplateSpec (Template (Spec (sts_oldObject (statefulSet s))))) = c # cs \<longrightarrow>
      NeedUpdate s = Returned (NeedUpdate_spec s c))"
  by (cases "cfg_needReload (configHelper s)")
     (auto simp: NeedUpdate_def NeedUpdate_spec_def server_exists_def all_owned_objects_exist_def
       imageCorrespondsToSpec_def OldObject_def NeedReload_def)

theorem NeedUpdate_matches_spec_witness:
  "\<not> all_owned_objects_exist (ca_server (fresh_agent ClusterStateRunning SyncStatusReady)) \<and>
   NeedUpdate (ca_server (fresh_agent ClusterStateRunning SyncStatusReady)) = Returned False \<and>
   Containers (TemplateSpec (Template (Spec (sts_oldObject (statefulSet
     (ca_server (fetched_agent ClusterStateRunning SyncStatusReady ''ytsaurus/ytsaurus:old'' 1 True))))))) =
     [\<lparr>Image = ''ytsaurus/ytsaurus:old'', Name = ''ytserver'', Command = [], VolumeMounts = [],
       Resources = []\<rparr>] \<and>
   NeedUpdate_spec (ca_server (fetched_agent ClusterStateRunning SyncStatusReady ''ytsaurus/ytsaurus:old'' 1 True))
     \<lparr>Image = ''ytsaurus/ytsaurus:old'', Name = ''ytserver'', Command = [], VolumeMounts = [],
       Resources = []\<rparr>"
proof -
  let ?fresh = "ca_server (fresh_agent ClusterStateRunning SyncStatusReady)"
  let ?old = "ca_server (fetched_agent ClusterStateRunning SyncStatusReady ''ytsaurus/ytsaurus:old'' 1 True)"
  let ?c = "\<lparr>Image = ''ytsaurus/ytsaurus:old'', Name = ''ytserver'', Command = [], VolumeMounts = [],
       Resources = []\<rparr>"
  have absent: "\<not> all_owned_objects_exist ?fresh"
    by (simp add: all_owned_objects_exist_def example_defs)
  have deployed: "Containers (TemplateSpec (Template (Spec (sts_oldObject (statefulSet ?old))))) = ?c # []"
    by (simp add: example_defs)
  have "NeedUpdate ?fresh = Returned False"
    using NeedUpdate_matches_spec [of ?fresh] absent by simp
  moreover have "NeedUpdate ?old = Returned (NeedUpdate_spec ?old ?c)"
    using NeedUpdate_matches_spec [of ?old ?c "[]"] deployed by simp
  then have "NeedUpdate_spec ?old ?c"
    by (simp add: fetched_agent_observed)
  ultimately show ?thesis
    using absent deployed by simp
qed

text \<open>
  Claim C10. When all owned objects exist and the deployed image is the resolved one, an
  error from the config helper's reload check makes \<open>NeedUpdate\<close> return false, whatever
  the bool that came with the error: the error is dropped and no update is signalled.
\<close>

theorem NeedUpdate_swallows_reload_error:
  "server_exists s \<Longrightarrow> imageCorrespondsToSpec s = Returned True \<Longrightarrow>
   NeedReload (configHelper s) = (needReload, Some e) \<Longrightarrow> NeedUpdate s = Returned False"
  by (simp add: NeedUpdate_def)

theorem NeedUpdate_swallows_reload_error_witness:
  "server_exists (reload_failed (ca_server (fetched_agent ClusterStateRunning SyncStatusReady
       ''ytsaurus/ytsaurus:stable-23.1.0-relwithdebinfo'' 1 True))) \<and>
   imageCorrespondsToSpec (reload_failed (ca_server (fetched_agent ClusterStateRunning SyncStatusReady
       ''ytsaurus/ytsaurus:stable-23.1.0-relwithdebinfo'' 1 True))) = Returned True \<and>
   NeedReload (configHelper (reload_failed (ca_server (fetched_agent ClusterStateRunning SyncStatusReady
       ''ytsaurus/ytsaurus:stable-23.1.0-relwithdebinfo'' 1 True)))) = (True, Some (Error ''generator'')) \<and>
   NeedUpdate (reload_failed (ca_server (fetched_agent ClusterStateRunning SyncStatusReady
       ''ytsaurus/ytsaurus:stable-23.1.0-relwithdebinfo'' 1 True))) = Returned False"
proof -
  let ?s = "reload_failed (ca_server (fetched_agent ClusterStateRunning SyncStatusReady
       ''ytsaurus/ytsaurus:stable-23.1.0-relwithdebinfo'' 1 True))"
  have e: "server_exists ?s"
    by (simp add: reload_failed_def server_exists_def example_defs)
  have i: "imageCorrespondsToSpec ?s = Returned True"
    by (simp add: reload_failed_def imageCorrespondsToSpec_def OldObject_def example_defs)
  have r: "NeedReload (configHelper ?s) = (True, Some (Error ''generator''))"
    by (simp add: reload_failed_def NeedReload_def)
  show ?thesis
    using e i r NeedUpdate_swallows_reload_error [OF e i r] by simp
qed

text \<open>
  Claim C8. \<open>ArePodsRemoved\<close> is true only when the workload set exists and its replica
  count, compared with the target zero, needs no sync, that is, the fetched replica count
  is zero; it is false for a server whose workload set does not exist.
\<close>

theorem ArePodsRemoved_only_when:
  "(ArePodsRemoved s \<longrightarrow>
      sts_exists (statefulSet s) \<and> \<not> StatefulSet_NeedSync (statefulSet s) 0 \<and>
      Replicas (Spec (OldObject (statefulSet s))) = Some 0) \<and>
   (\<not> sts_exists (statefulSet s) \<longrightarrow> \<not> ArePodsRemoved s)"
  by (simp add: ArePodsRemoved_def StatefulSet_NeedSync_def)

theorem ArePodsRemoved_only_when_witness:
  "ArePodsRemoved (ca_server (fetched_agent ClusterStateUpdating SyncStatusReady ''img'' 0 False)) \<and>
   sts_exists (statefulSet (ca_server (fetched_agent ClusterStateUpdating SyncStatusReady ''img'' 0 False))) \<and>
   Replicas (Spec (OldObject (statefulSet
     (ca_server (fetched_agent ClusterStateUpdating SyncStatusReady ''img'' 0 False))))) = Some 0 \<and>
   \<not> sts_exists (statefulSet (ca_server (fresh_agent ClusterStateRunning SyncStatusReady))) \<and>
   \<not> ArePodsRemoved (ca_server (fresh_agent ClusterStateRunning SyncStatusReady))"
proof -
  let ?gone = "ca_server (fetched_agent ClusterStateUpdating SyncStatusReady ''img'' 0 False)"
  let ?fresh = "ca_server (fresh_agent ClusterStateRunning SyncStatusReady)"
  have removed: "ArePodsRemoved ?gone"
    by (simp add: fetched_agent_observed)
  have never: "\<not> sts_exists (statefulSet ?fresh)"
    by (simp add: example_defs)
  show ?thesis
    using removed never ArePodsRemoved_only_when [of ?gone] ArePodsRemoved_only_when [of ?fresh]
    by simp
qed


subsection \<open>Building the workload set\<close>

text \<open>
  A second rebuild starts from the object the first one left in the resource and assigns
  the same fields again.
\<close>

lemma RebuildStatefulSet_again:
  "RebuildStatefulSet p (snd (RebuildStatefulSet p s)) = RebuildStatefulSet p s"
  by (simp add: RebuildStatefulSet_def Let_def StatefulSet_Build_def)

text \<open>
  The built object is a function of the instance spec, the resolved image, the binary
  path, the cluster resource, the labeller, the service name, the config file name and
  the parts of the resource's object that the build does not assign.
\<close>

lemma RebuildStatefulSet_depends_only_on:
  "instanceSpec s = instanceSpec s' \<Longrightarrow> srv_image s = srv_image s' \<Longrightarrow>
   binaryPath s = binaryPath s' \<Longrightarrow> ytsaurus s = ytsaurus s' \<Longrightarrow> labeller s = labeller s' \<Longrightarrow>
   hs_name (headlessService s) = hs_name (headlessService s') \<Longrightarrow>
   GetFileName (configHelper s) = GetFileName (configHelper s') \<Longrightarrow>
   Meta (StatefulSet_Build (statefulSet s)) = Meta (StatefulSet_Build (statefulSet s')) \<Longrightarrow>
   TemplateMeta (Template (Spec (StatefulSet_Build (statefulSet s)))) =
     TemplateMeta (Template (Spec (StatefulSet_Build (statefulSet s')))) \<Longrightarrow>
   fst (RebuildStatefulSet p s) = fst (RebuildStatefulSet p s')"
  by (simp add: RebuildStatefulSet_def Let_def)

text \<open>
  A rebuild does not look at the cache.
\<close>

lemma RebuildStatefulSet_ignores_cache:
  "fst (RebuildStatefulSet p (s\<lparr>builtStatefulSet := cache\<rparr>)) = fst (RebuildStatefulSet p s)"
  by (simp add: RebuildStatefulSet_def Let_def)

text \<open>
  Claim C7. Let \<open>built\<close> be the object a rebuild returns on the server \<open>s\<close>. A second
  rebuild right after the first returns \<open>built\<close> again; a rebuild returns \<open>built\<close>
  whatever the cache holds, so it always recomputes; it stores \<open>built\<close> in the cache;
  and \<open>built\<close> is made from the current inputs: its replica count is read through the
  address of the instance spec's count, and its service name, claim templates, image,
  command, volume mounts and volumes are those of the server's instance spec, image,
  binary path and config file as they are now. Two servers that agree on these inputs
  get the same object. \<open>BuildStatefulSet\<close> returns the cached object, and leaves the
  server as it is, when there is one, and is \<open>RebuildStatefulSet\<close> when there is none.
\<close>

theorem RebuildStatefulSet_pure_and_cached:
  "(let built = fst (RebuildStatefulSet p s);
        pod = TemplateSpec (Template (Spec built))
    in fst (RebuildStatefulSet p (snd (RebuildStatefulSet p s))) = built \<and>
       fst (RebuildStatefulSet p (s\<lparr>builtStatefulSet := cache\<rparr>)) = built \<and>
       builtStatefulSet (snd (RebuildStatefulSet p s)) = Some built \<and>
       replicas_of t built = Some (InstanceCount (instanceSpec t)) \<and>
       ServiceName (Spec built) = hs_name (headlessService s) \<and>
       VolumeClaimTemplates (Spec built) =
         createVolumeClaims p (SpecVolumeClaimTemplates (instanceSpec s)) \<and>
       map Image (Containers pod) = [srv_image s] \<and>
       map Command (Containers pod) =
         [[binaryPath s, ''--config'',
           path_Join p (ConfigMountPoint p) (GetFileName (configHelper s))]] \<and>
       map VolumeMounts (Containers pod) = [createVolumeMounts p (SpecVolumeMounts (instanceSpec s))] \<and>
       Volumes pod =
         createVolumes p (SpecVolumes (instanceSpec s)) (GetMainConfigMapName p (labeller s))) \<and>
   (instanceSpec s' = instanceSpec s \<and> srv_image s' = srv_image s \<and>
    binaryPath s' = binaryPath s \<and> ytsaurus s' = ytsaurus s \<and> labeller s' = labeller s \<and>
    hs_name (headlessService s') = hs_name (headlessService s) \<and>
    GetFileName (configHelper s') = GetFileName (configHelper s) \<and>
    Meta (StatefulSet_Build (statefulSet s')) = Meta (StatefulSet_Build (statefulSet s)) \<and>
    TemplateMeta (Template (Spec (StatefulSet_Build (statefulSet s')))) =
      TemplateMeta (Template (Spec (StatefulSet_Build (statefulSet s)))) \<longrightarrow>
      fst (RebuildStatefulSet p s') = fst (RebuildStatefulSet p s)) \<and>
   (builtStatefulSet s = Some cached \<longrightarrow> BuildStatefulSet p s = (cached, s)) \<and>
   (builtStatefulSet s = None \<longrightarrow> BuildStatefulSet p s = RebuildStatefulSet p s)"
proof (intro conjI impI)
  show "let built = fst (RebuildStatefulSet p s);
        pod = TemplateSpec (Template (Spec built))
    in fst (RebuildStatefulSet p (snd (RebuildStatefulSet p s))) = built \<and>
       fst (RebuildStatefulSet p (s\<lparr>builtStatefulSet := cache\<rparr>)) = built \<and>
       builtStatefulSet (snd (RebuildStatefulSet p s)) = Some built \<and>
       replicas_of t built = Some (InstanceCount (instanceSpec t)) \<and>
       ServiceName (Spec built) = hs_name (headlessService s) \<and>
       VolumeClaimTemplates (Spec built) =
         createVolumeClaims p (SpecVolumeClaimTemplates (instanceSpec s)) \<and>
       map Image (Containers pod) = [srv_image s] \<and>
       map Command (Containers pod) =
         [[binaryPath s, ''--config'',
           path_Join p (ConfigMountPoint p) (GetFileName (configHelper s))]] \<and>
       map VolumeMounts (Containers pod) = [createVolumeMounts p (SpecVolumeMounts (instanceSpec s))] \<and>
       Volumes pod =
         createVolumes p (SpecVolumes (instanceSpec s)) (GetMainConfigMapName p (labeller s))"
    unfolding Let_def RebuildStatefulSet_again RebuildStatefulSet_ignores_cache
    by (simp add: RebuildStatefulSet_def Let_def replicas_of_def load_int32_def)
next
  assume "instanceSpec s' = instanceSpec s \<and> srv_image s' = srv_image s \<and>
    binaryPath s' = binaryPath s \<and> ytsaurus s' = ytsaurus s \<and> labeller s' = labeller s \<and>
    hs_name (headlessService s') = hs_name (headlessService s) \<and>
    GetFileName (configHelper s') = GetFileName (configHelper s) \<and>
    Meta (StatefulSet_Build (statefulSet s')) = Meta (StatefulSet_Build (statefulSet s)) \<and>
    TemplateMeta (Template (Spec (StatefulSet_Build (statefulSet s')))) =
      TemplateMeta (Template (Spec (StatefulSet_Build (statefulSet s))))"
  then show "fst (RebuildStatefulSet p s') = fst (RebuildStatefulSet p s)"
    by (intro RebuildStatefulSet_depends_only_on) simp_all
next
  assume "builtStatefulSet s = Some cached"
  then show "BuildStatefulSet p s = (cached, s)"
    by (simp add: BuildStatefulSet_def)
next
  assume "builtStatefulSet s = None"
  then show "BuildStatefulSet p s = RebuildStatefulSet p s"
    by (simp add: BuildStatefulSet_def)
qed

text \<open>
  The witness builds on the fresh server, changes the instance spec in place and builds
  again: \<open>BuildStatefulSet\<close> still returns the first object, whose volumes are the old
  ones while its replica count, read through the pointer, is the new one;
  \<open>RebuildStatefulSet\<close> returns an object with the new volumes and replaces the cache.
\<close>

lemma fresh_rebuilt:
  "InstanceCount (instanceSpec (ca_server (fresh_agent cs st))) = 1"
  "SpecVolumes (instanceSpec (ca_server (fresh_agent cs st))) = []"
  "GetMainConfigMapName example_pkg (labeller (ca_server (fresh_agent cs st))) =
     ''yt-controller-agent-config''"
  "createVolumes example_pkg vs cm = vs @ [cm]"
  by (simp_all add: example_defs)

lemma respecified_fields:
  "instanceSpec (respecified s) = (instanceSpec s)\<lparr>InstanceCount := 5, SpecVolumes := [''spill'']\<rparr>"
  "labeller (respecified s) = labeller s"
  "builtStatefulSet (respecified s) = builtStatefulSet s"
  by (simp_all add: respecified_def)

lemma RebuildStatefulSet_keeps:
  "instanceSpec (snd (RebuildStatefulSet p s)) = instanceSpec s"
  "labeller (snd (RebuildStatefulSet p s)) = labeller s"
  by (simp_all add: RebuildStatefulSet_def Let_def)

theorem RebuildStatefulSet_pure_and_cached_witness:
  "(let s0 = ca_server (fresh_agent ClusterStateRunning SyncStatusReady);
        first = fst (RebuildStatefulSet example_pkg s0);
        s1 = respecified (snd (RebuildStatefulSet example_pkg s0));
        second = fst (RebuildStatefulSet example_pkg s1)
    in builtStatefulSet s0 = None \<and>
       BuildStatefulSet example_pkg s0 = RebuildStatefulSet example_pkg s0 \<and>
       builtStatefulSet s1 = Some first \<and>
       BuildStatefulSet example_pkg s1 = (first, s1) \<and>
       Volumes (TemplateSpec (Template (Spec first))) = [''yt-controller-agent-config''] \<and>
       replicas_of s0 first = Some 1 \<and>
       replicas_of s1 first = Some 5 \<and>
       Volumes (TemplateSpec (Template (Spec second))) = [''spill'', ''yt-controller-agent-config''] \<and>
       replicas_of s1 second = Some 5 \<and>
       builtStatefulSet (snd (RebuildStatefulSet example_pkg s1)) = Some second)"
proof -
  define s0 where "s0 = ca_server (fresh_agent ClusterStateRunning SyncStatusReady)"
  define first where "first = fst (RebuildStatefulSet example_pkg s0)"
  define s1 where "s1 = respecified (snd (RebuildStatefulSet example_pkg s0))"
  define second where "second = fst (RebuildStatefulSet example_pkg s1)"
  have empty: "builtStatefulSet s0 = None"
    by (simp add: s0_def fresh_agent_observed)
  have spec0: "InstanceCount (instanceSpec s0) = 1" "SpecVolumes (instanceSpec s0) = []"
    "GetMainConfigMapName example_pkg (labeller s0) = ''yt-controller-agent-config''"
    by (simp_all add: s0_def fresh_rebuilt)
  have spec1: "InstanceCount (instanceSpec s1) = 5" "SpecVolumes (instanceSpec s1) = [''spill'']"
    "GetMainConfigMapName example_pkg (labeller s1) = ''yt-controller-agent-config''"
    by (simp_all add: s1_def respecified_fields RebuildStatefulSet_keeps spec0)
  note at0 = RebuildStatefulSet_pure_and_cached [of example_pkg s0 None s0 s0 first, unfolded Let_def, folded first_def]
  note at01 = RebuildStatefulSet_pure_and_cached [of example_pkg s0 None s1 s0 first, unfolded Let_def, folded first_def]
  have b0: "BuildStatefulSet example_pkg s0 = RebuildStatefulSet example_pkg s0"
    using at0 empty by blast
  have filled: "builtStatefulSet s1 = Some first"
    using at0 by (simp add: s1_def respecified_fields)
  note at1 = RebuildStatefulSet_pure_and_cached [of example_pkg s1 None s1 s1 first, unfolded Let_def, folded second_def]
  have b1: "BuildStatefulSet example_pkg s1 = (first, s1)"
    using at1 filled by blast
  have v1: "Volumes (TemplateSpec (Template (Spec first))) = [''yt-controller-agent-config'']"
    using at0 by (simp add: spec0 fresh_rebuilt)
  have r0: "replicas_of s0 first = Some 1"
    using at0 by (simp add: spec0)
  have r1: "replicas_of s1 first = Some 5"
    using at01 by (simp add: spec1)
  have v2: "Volumes (TemplateSpec (Template (Spec second))) = [''spill'', ''yt-controller-agent-config'']"
    using at1 by (simp add: spec1 fresh_rebuilt)
  have r2: "replicas_of s1 second = Some 5"
    using at1 by (simp add: spec1)
  have c2: "builtStatefulSet (snd (RebuildStatefulSet example_pkg s1)) = Some second"
    using at1 by blast
  show ?thesis
    unfolding Let_def
    using empty b0 filled b1 v1 r0 r1 v2 r2 c2
    unfolding s0_def first_def s1_def second_def
    by blast
qed

text \<open>
  Claim C9. For a server made by \<open>NewServer\<close>, the built workload set has one main and
  one init container, both with the effective image (the instance spec's override when
  set, else the core image of the cluster), and the main container's command is the
  binary path, \<^verbatim>\<open>--config\<close>, and the config helper's file name joined to the config
  mount point.
\<close>

theorem built_image_and_command:
  "(let s = NewServer p l yt spec binPath configFileName statefulSetName serviceName generator;
        effective = (case InstanceImage spec of
                       Some override \<Rightarrow> override
                     | None \<Rightarrow> CoreImage (ResourceSpec (Resource yt)));
        pod = TemplateSpec (Template (Spec (fst (BuildStatefulSet p s))))
    in map Image (Containers pod) = [effective] \<and>
       map Image (InitContainers pod) = [effective] \<and>
       map Command (Containers pod) =
         [[binPath, ''--config'', path_Join p (ConfigMountPoint p) (GetFileName (configHelper s))]])"
  by (simp add: Let_def NewServer_def BuildStatefulSet_def RebuildStatefulSet_def GetResource_def
      split: option.split)

lemma fresh_agent_server:
  "ca_server (fresh_agent cs st) =
     NewServer example_pkg
       \<lparr>LabellerMeta = ''minisaurus'', LabellerProxy = ''client'',
        ComponentLabel = ''yt-controller-agent'', ComponentName = ''ControllerAgent''\<rparr>
       (minisaurus cs) minisaurus_controllerAgents
       ''/usr/bin/ytserver-controller-agent'' ''ytserver-controller-agent.yson'' ''ca''
       ''controller-agents'' ''controller-agent''"
  by (simp add: fresh_agent_def NewControllerAgent_def Let_def GetResource_def minisaurus_def
      example_pkg_def)

theorem built_image_and_command_witness:
  "(let pod = TemplateSpec (Template (Spec (fst (BuildStatefulSet example_pkg
                (ca_server (fresh_agent ClusterStateRunning SyncStatusReady))))))
    in map Image (Containers pod) = [''ytsaurus/ytsaurus:stable-23.1.0-relwithdebinfo''] \<and>
       map Image (InitContainers pod) = [''ytsaurus/ytsaurus:stable-23.1.0-relwithdebinfo''] \<and>
       map Command (Containers pod) =
         [[''/usr/bin/ytserver-controller-agent'', ''--config'',
           ''/config/ytserver-controller-agent.yson'']]) \<and>
   (let pod = TemplateSpec (Template (Spec (fst (BuildStatefulSet example_pkg
                (NewServer example_pkg (ca_labeller (fresh_agent ClusterStateRunning SyncStatusReady))
                   (minisaurus ClusterStateRunning)
                   (minisaurus_controllerAgents\<lparr>InstanceImage := Some ''ytsaurus/ytsaurus:dev''\<rparr>)
                   ''/usr/bin/ytserver-controller-agent'' ''ytserver-controller-agent.yson'' ''ca''
                   ''controller-agents'' ''controller-agent'')))))
    in map Image (Containers pod) = [''ytsaurus/ytsaurus:dev''] \<and>
       map Image (InitContainers pod) = [''ytsaurus/ytsaurus:dev''])"
  using
    built_image_and_command [of example_pkg
       "\<lparr>LabellerMeta = ''minisaurus'', LabellerProxy = ''client'',
        ComponentLabel = ''yt-controller-agent'', ComponentName = ''ControllerAgent''\<rparr>"
       "minisaurus ClusterStateRunning" minisaurus_controllerAgents
       "''/usr/bin/ytserver-controller-agent''" "''ytserver-controller-agent.yson''" "''ca''"
       "''controller-agents''" "''controller-agent''"]
    built_image_and_command [of example_pkg
       "ca_labeller (fresh_agent ClusterStateRunning SyncStatusReady)"
       "minisaurus ClusterStateRunning" "minisaurus_controllerAgents\<lparr>InstanceImage := Some ''ytsaurus/ytsaurus:dev''\<rparr>"
       "''/usr/bin/ytserver-controller-agent''" "''ytserver-controller-agent.yson''" "''ca''"
       "''controller-agents''" "''controller-agent''"]
  by (simp add: Let_def fresh_agent_server NewServer_def GetFileName_def example_pkg_def
       minisaurus_def minisaurus_controllerAgents_def)

subsection \<open>The decision procedure, rule by rule\<close>

text \<open>
  Three lemmas follow \<open>doSync\<close> through its rules: the first rule, the second rule,
  and the four rules left when neither of them fires.
\<close>

lemma doSync_NeedLocalUpdate:
  "IsReadyToUpdateClusterState p (GetClusterState (ca_ytsaurus ca)) \<Longrightarrow>
   NeedUpdate (ca_server ca) = Returned True \<Longrightarrow>
   doSync p ca dry = Returned (SimpleStatus SyncStatusNeedLocalUpdate, None, ca)"
  by (simp add: doSync_def)

lemma doSync_handled:
  "update_not_flagged p ca \<Longrightarrow> GetClusterState (ca_ytsaurus ca) = ClusterStateUpdating \<Longrightarrow>
   handleUpdatingClusterState p ca dry = (Some status, err) \<Longrightarrow>
   doSync p ca dry = Returned (status, err, ca)"
  by (auto simp add: doSync_def)

lemma doSync_not_handled:
  "update_not_flagged p ca \<Longrightarrow> update_not_handled p ca dry \<Longrightarrow>
   doSync p ca dry =
     (if \<not> IsRunningStatus p (SyncStatus_of (Component_Status (master ca)))
      then Returned (WaitingStatus SyncStatusBlocked (GetName (master ca)), None, ca)
      else if NeedSync (ca_server ca)
      then (if dry then Returned (WaitingStatus SyncStatusPending ''components'', None, ca)
            else Returned (WaitingStatus SyncStatusPending ''components'',
                           fst (server_Sync p (ca_server ca)),
                           ca\<lparr>ca_server := snd (server_Sync p (ca_server ca))\<rparr>))
      else if \<not> ArePodsReady (ca_server ca)
      then Returned (WaitingStatus SyncStatusBlocked ''pods'', None, ca)
      else Returned (SimpleStatus SyncStatusReady, None, ca))"
  by (cases "handleUpdatingClusterState p ca dry")
     (auto simp add: doSync_def split: prod.split)

text \<open>
  \<open>server_Sync\<close> returns the error of \<^verbatim>\<open>resources.Sync\<close> and counts the call.
\<close>

lemma syncCalls_BuildStatefulSet:
  "syncCalls (snd (BuildStatefulSet p s)) = syncCalls s"
  by (simp add: BuildStatefulSet_def RebuildStatefulSet_def Let_def split: option.split)

lemma server_Sync_result:
  "fst (server_Sync p s) = resources_Sync p (snd (BuildStatefulSet p s))"
  "syncCalls (snd (server_Sync p s)) = Suc (syncCalls s)"
  by (simp_all add: server_Sync_def Let_def syncCalls_BuildStatefulSet)



text \<open>
  A controller agent whose master is Blocked while the deployed image is not the one of
  the spec: the cluster is Running, so the first rule fires.
\<close>

lemma blocked_agent_needs_update:
  "\<not> IsRunningStatus example_pkg (SyncStatus_of (Component_Status (master
        (fetched_agent ClusterStateRunning SyncStatusBlocked ''ytsaurus/ytsaurus:old'' 1 True))))"
  "doSync example_pkg
      (fetched_agent ClusterStateRunning SyncStatusBlocked ''ytsaurus/ytsaurus:old'' 1 True) True =
   Returned (SimpleStatus SyncStatusNeedLocalUpdate, None,
             fetched_agent ClusterStateRunning SyncStatusBlocked ''ytsaurus/ytsaurus:old'' 1 True)"
  by (simp_all add: doSync_NeedLocalUpdate example_pkg_observed fetched_agent_observed)

text \<open>
  Claim C1. \<open>doSync\<close> decides by the first rule that matches, in this order:
  (1) the cluster state permits an update and the server needs one: NeedLocalUpdate;
  (2) otherwise, the cluster state is Updating and the handler returns a status: that
  status, with the handler's error; (3) otherwise, the master's status is not in the
  Ready family: Blocked, with the master's name; (4) otherwise, the server needs a sync:
  Pending, with reason components; (5) otherwise, the pods are not ready: Blocked, with
  reason pods; (6) otherwise Ready. The update check comes before the dependency check:
  there is a state with a master outside the Ready family in which the result is
  NeedLocalUpdate.
\<close>

theorem doSync_rule_order:
  "(IsReadyToUpdateClusterState p (GetClusterState (ca_ytsaurus ca)) \<and>
    NeedUpdate (ca_server ca) = Returned True \<longrightarrow>
      doSync p ca dry = Returned (SimpleStatus SyncStatusNeedLocalUpdate, None, ca)) \<and>
   (update_not_flagged p ca \<and> GetClusterState (ca_ytsaurus ca) = ClusterStateUpdating \<and>
    handleUpdatingClusterState p ca dry = (Some status, err) \<longrightarrow>
      doSync p ca dry = Returned (status, err, ca)) \<and>
   (update_not_flagged p ca \<and> update_not_handled p ca dry \<and>
    \<not> IsRunningStatus p (SyncStatus_of (Component_Status (master ca))) \<longrightarrow>
      doSync p ca dry = Returned (WaitingStatus SyncStatusBlocked (GetName (master ca)), None, ca)) \<and>
   (update_not_flagged p ca \<and> update_not_handled p ca dry \<and>
    IsRunningStatus p (SyncStatus_of (Component_Status (master ca))) \<and> NeedSync (ca_server ca) \<longrightarrow>
      (\<exists>err' ca'. doSync p ca dry =
         Returned (WaitingStatus SyncStatusPending ''components'', err', ca'))) \<and>
   (update_not_flagged p ca \<and> update_not_handled p ca dry \<and>
    IsRunningStatus p (SyncStatus_of (Component_Status (master ca))) \<and> \<not> NeedSync (ca_server ca) \<and>
    \<not> ArePodsReady (ca_server ca) \<longrightarrow>
      doSync p ca dry = Returned (WaitingStatus SyncStatusBlocked ''pods'', None, ca)) \<and>
   (update_not_flagged p ca \<and> update_not_handled p ca dry \<and>
    IsRunningStatus p (SyncStatus_of (Component_Status (master ca))) \<and> \<not> NeedSync (ca_server ca) \<and>
    ArePodsReady (ca_server ca) \<longrightarrow>
      doSync p ca dry = Returned (SimpleStatus SyncStatusReady, None, ca)) \<and>
   (\<exists>p' blocked.
      \<not> IsRunningStatus p' (SyncStatus_of (Component_Status (master blocked))) \<and>
      doSync p' blocked True = Returned (SimpleStatus SyncStatusNeedLocalUpdate, None, blocked))"
proof (intro conjI impI)
  show "\<exists>p' blocked.
      \<not> IsRunningStatus p' (SyncStatus_of (Component_Status (master blocked))) \<and>
      doSync p' blocked True = Returned (SimpleStatus SyncStatusNeedLocalUpdate, None, blocked)"
    using blocked_agent_needs_update by blast
qed (simp_all add: doSync_NeedLocalUpdate doSync_handled doSync_not_handled)

theorem doSync_rule_order_witness:
  "doSync example_pkg (fetched_agent ClusterStateRunning SyncStatusBlocked ''ytsaurus/ytsaurus:old'' 1 True) True =
     Returned (SimpleStatus SyncStatusNeedLocalUpdate, None,
               fetched_agent ClusterStateRunning SyncStatusBlocked ''ytsaurus/ytsaurus:old'' 1 True) \<and>
   doSync example_pkg
       (fetched_agent ClusterStateUpdating SyncStatusBlocked ''ytsaurus/ytsaurus:stable-23.1.0-relwithdebinfo'' 1 False)
       False =
     Returned (WaitingStatus SyncStatusPending ''pods removal'', Some (Error ''pods removal failed''),
               fetched_agent ClusterStateUpdating SyncStatusBlocked ''ytsaurus/ytsaurus:stable-23.1.0-relwithdebinfo'' 1 False) \<and>
   doSync example_pkg
       (fetched_agent ClusterStateRunning SyncStatusBlocked ''ytsaurus/ytsaurus:stable-23.1.0-relwithdebinfo'' 3 False)
       True =
     Returned (WaitingStatus SyncStatusBlocked ''Master'', None,
               fetched_agent ClusterStateRunning SyncStatusBlocked ''ytsaurus/ytsaurus:stable-23.1.0-relwithdebinfo'' 3 False) \<and>
   (\<exists>err' ca'. doSync example_pkg (fresh_agent ClusterStateRunning SyncStatusReady) True =
      Returned (WaitingStatus SyncStatusPending ''components'', err', ca')) \<and>
   doSync example_pkg
       (fetched_agent ClusterStateRunning SyncStatusReady ''ytsaurus/ytsaurus:stable-23.1.0-relwithdebinfo'' 1 False)
       True =
     Returned (WaitingStatus SyncStatusBlocked ''pods'', None,
               fetched_agent ClusterStateRunning SyncStatusReady ''ytsaurus/ytsaurus:stable-23.1.0-relwithdebinfo'' 1 False) \<and>
   doSync example_pkg
       (fetched_agent ClusterStateRunning SyncStatusReady ''ytsaurus/ytsaurus:stable-23.1.0-relwithdebinfo'' 1 True)
       True =
     Returned (SimpleStatus SyncStatusReady, None,
               fetched_agent ClusterStateRunning SyncStatusReady ''ytsaurus/ytsaurus:stable-23.1.0-relwithdebinfo'' 1 True)"
proof -
  let ?core = "''ytsaurus/ytsaurus:stable-23.1.0-relwithdebinfo''"
  note observed = example_pkg_observed fetched_agent_observed fresh_agent_observed
  have r1: "doSync example_pkg (fetched_agent ClusterStateRunning SyncStatusBlocked ''ytsaurus/ytsaurus:old'' 1 True) True =
     Returned (SimpleStatus SyncStatusNeedLocalUpdate, None,
               fetched_agent ClusterStateRunning SyncStatusBlocked ''ytsaurus/ytsaurus:old'' 1 True)"
    using doSync_rule_order [of example_pkg
        "fetched_agent ClusterStateRunning SyncStatusBlocked ''ytsaurus/ytsaurus:old'' 1 True" True]
    by (simp add: observed)
  have r2: "doSync example_pkg (fetched_agent ClusterStateUpdating SyncStatusBlocked ?core 1 False) False =
     Returned (WaitingStatus SyncStatusPending ''pods removal'', Some (Error ''pods removal failed''),
               fetched_agent ClusterStateUpdating SyncStatusBlocked ?core 1 False)"
    using doSync_rule_order [of example_pkg
        "fetched_agent ClusterStateUpdating SyncStatusBlocked ?core 1 False" False
        "WaitingStatus SyncStatusPending ''pods removal''" "Some (Error ''pods removal failed'')"]
    by (simp add: observed)
  have r3: "doSync example_pkg (fetched_agent ClusterStateRunning SyncStatusBlocked ?core 3 False) True =
     Returned (WaitingStatus SyncStatusBlocked ''Master'', None,
               fetched_agent ClusterStateRunning SyncStatusBlocked ?core 3 False)"
    using doSync_rule_order [of example_pkg
        "fetched_agent ClusterStateRunning SyncStatusBlocked ?core 3 False" True]
    by (simp add: observed)
  have r4: "\<exists>err' ca'. doSync example_pkg (fresh_agent ClusterStateRunning SyncStatusReady) True =
      Returned (WaitingStatus SyncStatusPending ''components'', err', ca')"
    using doSync_rule_order [of example_pkg "fresh_agent ClusterStateRunning SyncStatusReady" True]
    by (simp add: observed)
  have r5: "doSync example_pkg (fetched_agent ClusterStateRunning SyncStatusReady ?core 1 False) True =
     Returned (WaitingStatus SyncStatusBlocked ''pods'', None,
               fetched_agent ClusterStateRunning SyncStatusReady ?core 1 False)"
    using doSync_rule_order [of example_pkg
        "fetched_agent ClusterStateRunning SyncStatusReady ?core 1 False" True]
    by (simp add: observed)
  have r6: "doSync example_pkg (fetched_agent ClusterStateRunning SyncStatusReady ?core 1 True) True =
     Returned (SimpleStatus SyncStatusReady, None,
               fetched_agent ClusterStateRunning SyncStatusReady ?core 1 True)"
    using doSync_rule_order [of example_pkg
        "fetched_agent ClusterStateRunning SyncStatusReady ?core 1 True" True]
    by (simp add: observed)
  from r1 r2 r3 r4 r5 r6 show ?thesis
    by blast
qed

subsection \<open>Status returns\<close>


lemma Status_of_doSync:
  "doSync p ca True = Returned (status, None, ca') \<Longrightarrow> Status p ca = Returned (status, ca')"
  by (simp add: Status_def)


text \<open>
  The source hands the handler's error on without looking at \<open>dry\<close>: a handler that
  returned an error together with a status in a dry run would make \<open>Status\<close> panic. That
  \<open>Status\<close> returns in the state Updating therefore rests on the handler, which is
  modelled from the spec.
\<close>

lemma Status_panics_on_dry_error:
  "update_not_flagged p ca \<Longrightarrow> GetClusterState (ca_ytsaurus ca) = ClusterStateUpdating \<Longrightarrow>
   handleUpdatingClusterState p ca True = (Some status, Some e) \<Longrightarrow>
   Status p ca = Panicked (PanicError e)"
  by (simp add: Status_def doSync_handled)




subsection \<open>Blocking on the dependency\<close>

text \<open>
  A state in which the master's status is not in the Ready family and \<open>Status\<close> is not
  Blocked: the cluster is Running and the deployed image is not the image of the spec,
  so the first rule answers NeedLocalUpdate before the dependency is looked at.
\<close>

theorem Status_blocked_counterexample:
  "\<not> IsRunningStatus example_pkg (SyncStatus_of (Component_Status (master
        (fetched_agent ClusterStateRunning SyncStatusBlocked ''ytsaurus/ytsaurus:old'' 1 True)))) \<and>
   Status example_pkg (fetched_agent ClusterStateRunning SyncStatusBlocked ''ytsaurus/ytsaurus:old'' 1 True) =
     Returned (SimpleStatus SyncStatusNeedLocalUpdate,
               fetched_agent ClusterStateRunning SyncStatusBlocked ''ytsaurus/ytsaurus:old'' 1 True) \<and>
   SimpleStatus SyncStatusNeedLocalUpdate \<noteq>
     WaitingStatus SyncStatusBlocked
       (GetName (master (fetched_agent ClusterStateRunning SyncStatusBlocked ''ytsaurus/ytsaurus:old'' 1 True)))"
  using blocked_agent_needs_update
  by (simp add: Status_def SimpleStatus_def WaitingStatus_def)

text \<open>
  The second rule comes before the dependency check as well: in the state Updating a
  status from the handler is returned although the master is Blocked.
\<close>

lemma handled_agent_not_blocked:
  "\<not> IsRunningStatus example_pkg (SyncStatus_of (Component_Status (master
        (fetched_agent ClusterStateUpdating SyncStatusBlocked
           ''ytsaurus/ytsaurus:stable-23.1.0-relwithdebinfo'' 1 False))))"
  "Status example_pkg (fetched_agent ClusterStateUpdating SyncStatusBlocked
           ''ytsaurus/ytsaurus:stable-23.1.0-relwithdebinfo'' 1 False) =
   Returned (WaitingStatus SyncStatusPending ''pods removal'',
             fetched_agent ClusterStateUpdating SyncStatusBlocked
               ''ytsaurus/ytsaurus:stable-23.1.0-relwithdebinfo'' 1 False)"
proof -
  let ?ca = "fetched_agent ClusterStateUpdating SyncStatusBlocked
               ''ytsaurus/ytsaurus:stable-23.1.0-relwithdebinfo'' 1 False"
  show "\<not> IsRunningStatus example_pkg (SyncStatus_of (Component_Status (master ?ca)))"
    by (simp add: example_pkg_observed fetched_agent_observed)
  have "doSync example_pkg ?ca True =
      Returned (WaitingStatus SyncStatusPending ''pods removal'', None, ?ca)"
    by (rule doSync_handled) (simp_all add: example_pkg_observed fetched_agent_observed)
  then show "Status example_pkg ?ca = Returned (WaitingStatus SyncStatusPending ''pods removal'', ?ca)"
    by (rule Status_of_doSync)
qed

text \<open>
  Claim C2, amended. When the master's status is not in the Ready family and neither of
  the first two rules fires (the cluster state does not permit an update or the server
  needs none, and the cluster state is not Updating or the handler returns no status),
  \<open>Status\<close> returns Blocked with the master's name as reason, whatever the server's
  objects, replica count, config and pods are.
\<close>

theorem Status_blocked_on_dependency:
  "\<not> IsRunningStatus p (SyncStatus_of (Component_Status (master ca))) \<Longrightarrow>
   update_not_flagged p ca \<Longrightarrow> update_not_handled p ca True \<Longrightarrow>
   Status p ca = Returned (WaitingStatus SyncStatusBlocked (GetName (master ca)), ca)"
  by (rule Status_of_doSync) (simp add: doSync_not_handled)

theorem Status_blocked_on_dependency_witness:
  "Status example_pkg (fresh_agent ClusterStateRunning SyncStatusPending) =
     Returned (WaitingStatus SyncStatusBlocked ''Master'', fresh_agent ClusterStateRunning SyncStatusPending) \<and>
   Status example_pkg (fetched_agent ClusterStateRunning SyncStatusBlocked
       ''ytsaurus/ytsaurus:stable-23.1.0-relwithdebinfo'' 1 False) =
     Returned (WaitingStatus SyncStatusBlocked ''Master'',
       fetched_agent ClusterStateRunning SyncStatusBlocked
         ''ytsaurus/ytsaurus:stable-23.1.0-relwithdebinfo'' 1 False) \<and>
   Status example_pkg (fetched_agent ClusterStateCreating SyncStatusBlocked ''ytsaurus/ytsaurus:old'' 1 True) =
     Returned (WaitingStatus SyncStatusBlocked ''Master'',
       fetched_agent ClusterStateCreating SyncStatusBlocked ''ytsaurus/ytsaurus:old'' 1 True)"
  using
    Status_blocked_on_dependency [of example_pkg "fresh_agent ClusterStateRunning SyncStatusPending"]
    Status_blocked_on_dependency [of example_pkg "fetched_agent ClusterStateRunning SyncStatusBlocked
       ''ytsaurus/ytsaurus:stable-23.1.0-relwithdebinfo'' 1 False"]
    Status_blocked_on_dependency [of example_pkg
       "fetched_agent ClusterStateCreating SyncStatusBlocked ''ytsaurus/ytsaurus:old'' 1 True"]
  by (simp add: example_pkg_observed fetched_agent_observed fresh_agent_observed)

subsection \<open>The sync rule\<close>

text \<open>
  Claim C6. Let the first three rules not fire and let the server need a sync. In a dry
  run the result is Pending with reason components, the error is nil and the component
  is unchanged, so \<open>server_Sync\<close> did not run. In a live run \<open>server_Sync\<close> runs once
  (the call counter goes up by one), the error of \<^verbatim>\<open>resources.Sync\<close> is the error that
  \<open>doSync\<close> and \<open>Sync\<close> return, and the status is Pending with reason components
  whether or not there was an error.
\<close>

theorem doSync_pending_components:
  "update_not_flagged p ca \<Longrightarrow>
   IsRunningStatus p (SyncStatus_of (Component_Status (master ca))) \<Longrightarrow>
   NeedSync (ca_server ca) \<Longrightarrow>
   (update_not_handled p ca True \<longrightarrow>
      doSync p ca True = Returned (WaitingStatus SyncStatusPending ''components'', None, ca) \<and>
      Status p ca = Returned (WaitingStatus SyncStatusPending ''components'', ca)) \<and>
   (update_not_handled p ca False \<longrightarrow>
      doSync p ca False =
        Returned (WaitingStatus SyncStatusPending ''components'',
                  fst (server_Sync p (ca_server ca)),
                  ca\<lparr>ca_server := snd (server_Sync p (ca_server ca))\<rparr>) \<and>
      Sync p ca =
        Returned (fst (server_Sync p (ca_server ca)),
                  ca\<lparr>ca_server := snd (server_Sync p (ca_server ca))\<rparr>) \<and>
      fst (server_Sync p (ca_server ca)) =
        resources_Sync p (snd (BuildStatefulSet p (ca_server ca))) \<and>
      syncCalls (snd (server_Sync p (ca_server ca))) = Suc (syncCalls (ca_server ca)))"
  by (simp add: doSync_not_handled Status_def Sync_def server_Sync_result)

theorem doSync_pending_components_witness:
  "doSync failing_pkg (fresh_agent ClusterStateRunning SyncStatusReady) True =
     Returned (WaitingStatus SyncStatusPending ''components'', None,
               fresh_agent ClusterStateRunning SyncStatusReady) \<and>
   (\<exists>ca'. doSync failing_pkg (fresh_agent ClusterStateRunning SyncStatusReady) False =
      Returned (WaitingStatus SyncStatusPending ''components'', Some (Error ''conflict''), ca') \<and>
      Sync failing_pkg (fresh_agent ClusterStateRunning SyncStatusReady) =
        Returned (Some (Error ''conflict''), ca') \<and>
      syncCalls (ca_server ca') = 1)"
proof -
  let ?ca = "fresh_agent ClusterStateRunning SyncStatusReady"
  note observed = example_pkg_observed fresh_agent_observed
  have flag: "update_not_flagged failing_pkg ?ca"
    by (simp add: observed)
  have running: "IsRunningStatus failing_pkg (SyncStatus_of (Component_Status (master ?ca)))"
    by (simp add: observed)
  have need: "NeedSync (ca_server ?ca)"
    by (simp add: observed)
  have dry: "update_not_handled failing_pkg ?ca True" and live: "update_not_handled failing_pkg ?ca False"
    by (simp_all add: observed)
  show ?thesis
    using doSync_pending_components [OF flag running need] dry live
    by (simp add: observed)
qed

end
